theory Spec2Isabelle
  imports Main
begin

section \<open>The run controller of the SudoDev front end\<close>

text \<open>
  The controller is the React component \<open>Home\<close> of \<^verbatim>\<open>frontend/app/page.tsx\<close>. Its state is
  the nine \<open>useState\<close> cells; its behaviour is the polling effect, \<open>handleSubmit\<close> and
  \<open>reset\<close>. The model keeps the cells in the record \<open>home\<close> and everything the browser
  holds for the component (the live interval timer, the status requests that have not
  resolved yet, the pending timeouts, the start requests that have not resolved yet) in
  the record \<open>runtime\<close>. Every callback of the source is a function on \<open>runtime\<close>; the
  order in which the browser runs them is an \<open>event\<close> list.
\<close>

subsection \<open>JavaScript truthiness and the \<open>||\<close> defaults\<close>

text \<open>\<open>if (x)\<close> on an optional string: \<open>undefined\<close> and the empty string are falsy.\<close>

definition truthy :: "string option \<Rightarrow> bool" where
  "truthy x = (case x of None \<Rightarrow> False | Some s \<Rightarrow> s \<noteq> [])"

text \<open>\<open>x || d\<close> on an optional string, an optional array (every array is truthy) and an
  optional number (zero is falsy).\<close>

definition or_string :: "string option \<Rightarrow> string \<Rightarrow> string" where
  "or_string x d = (case x of None \<Rightarrow> d | Some s \<Rightarrow> if s = [] then d else s)"

definition or_array :: "'a list option \<Rightarrow> 'a list \<Rightarrow> 'a list" where
  "or_array x d = (case x of None \<Rightarrow> d | Some xs \<Rightarrow> xs)"

definition or_number :: "int option \<Rightarrow> int \<Rightarrow> int" where
  "or_number x d = (case x of None \<Rightarrow> d | Some n \<Rightarrow> if n = 0 then d else n)"

subsection \<open>Data\<close>

text \<open>The \<open>useState\<close> cells of \<open>Home\<close> (\<open>context\<close> is a reserved word here, hence
  \<open>context_text\<close>).\<close>

record home =
  view :: string
  instanceId :: string
  context_text :: string
  runId :: string
  status :: string
  currentStep :: int
  logs :: "string list"
  loading :: bool
  patch :: string

text \<open>The body of \<^verbatim>\<open>GET /api/status/{run_id}\<close> as the callback reads it. \<open>run_id\<close> and
  \<open>status\<close> are required by \<open>AgentStatusResponse\<close>, \<open>logs\<close> and \<open>current_step\<close> are optional
  there; \<open>patch\<close> and \<open>error\<close> are read by the callback and may be absent. The field
  \<open>message\<close> is never read. The step number is an integer.\<close>

record status_payload =
  data_run_id :: string
  data_status :: string
  data_logs :: "string list option"
  data_current_step :: "int option"
  data_patch :: "string option"
  data_error :: "string option"

text \<open>What the \<open>try\<close> block of the callback gets from \<open>await fetch(...)\<close> and
  \<open>await response.json()\<close>: an exception, which the \<open>catch\<close> block receives, or the parsed
  body.\<close>

datatype status_result = Threw | Json status_payload

text \<open>The same for \<^verbatim>\<open>POST /api/run\<close>; of the body only \<open>run_id\<close> is read.\<close>

datatype run_result = RunThrew | RunJson "string option"

text \<open>A live \<open>setInterval\<close>: its handle, the \<open>runId\<close> its closure captured, its period.\<close>

datatype interval = Interval (timer_id: nat) (captured_runId: string) (period_ms: nat)

text \<open>A status request that has been sent and has not resolved: the handle \<open>pollInterval\<close>
  that its callback closes over, and the run identifier in its URL.\<close>

datatype poll = Poll (issuer: nat) (url_runId: string)

record runtime =
  ui :: home
  pollInterval :: "interval option"
  next_timer :: nat
  inflight :: "poll list"
  timeouts :: "nat list"
  submits :: "(string \<times> string) list"
  alerts :: nat

definition initial :: runtime where
  "initial = \<lparr>ui = \<lparr>view = ''input'', instanceId = [], context_text = [], runId = [],
       status = ''idle'', currentStep = 0, logs = [], loading = False, patch = []\<rparr>,
     pollInterval = None, next_timer = 0, inflight = [], timeouts = [], submits = [],
     alerts = 0\<rparr>"

subsection \<open>State setters and timers\<close>

definition setView :: "string \<Rightarrow> runtime \<Rightarrow> runtime" where
  "setView v rt = rt\<lparr>ui := (ui rt)\<lparr>view := v\<rparr>\<rparr>"

definition setInstanceId :: "string \<Rightarrow> runtime \<Rightarrow> runtime" where
  "setInstanceId v rt = rt\<lparr>ui := (ui rt)\<lparr>instanceId := v\<rparr>\<rparr>"

definition setContext :: "string \<Rightarrow> runtime \<Rightarrow> runtime" where
  "setContext v rt = rt\<lparr>ui := (ui rt)\<lparr>context_text := v\<rparr>\<rparr>"

definition setRunId :: "string \<Rightarrow> runtime \<Rightarrow> runtime" where
  "setRunId v rt = rt\<lparr>ui := (ui rt)\<lparr>runId := v\<rparr>\<rparr>"

definition setStatus :: "string \<Rightarrow> runtime \<Rightarrow> runtime" where
  "setStatus v rt = rt\<lparr>ui := (ui rt)\<lparr>status := v\<rparr>\<rparr>"

definition setCurrentStep :: "int \<Rightarrow> runtime \<Rightarrow> runtime" where
  "setCurrentStep v rt = rt\<lparr>ui := (ui rt)\<lparr>currentStep := v\<rparr>\<rparr>"

definition setLogs :: "string list \<Rightarrow> runtime \<Rightarrow> runtime" where
  "setLogs v rt = rt\<lparr>ui := (ui rt)\<lparr>logs := v\<rparr>\<rparr>"

definition setLoading :: "bool \<Rightarrow> runtime \<Rightarrow> runtime" where
  "setLoading v rt = rt\<lparr>ui := (ui rt)\<lparr>loading := v\<rparr>\<rparr>"

definition setPatch :: "string \<Rightarrow> runtime \<Rightarrow> runtime" where
  "setPatch v rt = rt\<lparr>ui := (ui rt)\<lparr>patch := v\<rparr>\<rparr>"

text \<open>\<open>clearInterval(h)\<close> stops the timer with handle \<open>h\<close> and no other.\<close>

definition clearInterval :: "nat \<Rightarrow> runtime \<Rightarrow> runtime" where
  "clearInterval h rt =
     (case pollInterval rt of
        None \<Rightarrow> rt
      | Some t \<Rightarrow> if timer_id t = h then rt\<lparr>pollInterval := None\<rparr> else rt)"

text \<open>\<open>setTimeout(() => setView("result"), ms)\<close>: the only timeout of the component, so a
  pending timeout is its delay.\<close>

definition setTimeout :: "nat \<Rightarrow> runtime \<Rightarrow> runtime" where
  "setTimeout ms rt = rt\<lparr>timeouts := timeouts rt @ [ms]\<rparr>"

subsection \<open>The polling effect\<close>

text \<open>
  \<open>useEffect(..., [view, runId])\<close> after a render whose \<open>view\<close> or \<open>runId\<close> differs from the
  previous render's (\<open>old\<close>): the previous run of the effect is cleaned up, which clears the
  interval it created, and the body runs again, which returns at once unless the view is
  \<open>"hud"\<close> and \<open>runId\<close> is non-empty, and otherwise starts an interval of 1500 ms.
\<close>

definition poll_effect :: "home \<Rightarrow> runtime \<Rightarrow> runtime" where
  "poll_effect old rt =
     (if view (ui rt) = view old \<and> runId (ui rt) = runId old then rt
      else if view (ui rt) \<noteq> ''hud'' \<or> runId (ui rt) = [] then rt\<lparr>pollInterval := None\<rparr>
      else rt\<lparr>pollInterval := Some (Interval (next_timer rt) (runId (ui rt)) 1500),
              next_timer := Suc (next_timer rt)\<rparr>)"

text \<open>A tick of the interval: the callback sends the status request for the captured
  \<open>runId\<close> and suspends at the first \<open>await\<close>. Nothing in it looks at earlier requests.\<close>

definition tick :: "runtime \<Rightarrow> runtime" where
  "tick rt =
     (case pollInterval rt of
        None \<Rightarrow> rt
      | Some t \<Rightarrow> rt\<lparr>inflight := inflight rt @ [Poll (timer_id t) (captured_runId t)]\<rparr>)"

text \<open>The rest of the interval callback, run when the request \<open>p\<close> resolves with \<open>r\<close>.\<close>

definition on_status :: "poll \<Rightarrow> status_result \<Rightarrow> runtime \<Rightarrow> runtime" where
  "on_status p r rt =
     (case r of
        Threw \<Rightarrow> setView ''result'' (setStatus ''failed'' (clearInterval (issuer p) rt))
      | Json data \<Rightarrow>
          if truthy (data_error data)
          then setView ''result'' (setStatus ''failed'' (clearInterval (issuer p) rt))
          else
            let rt1 = setPatch (or_string (data_patch data) [])
                       (setStatus (data_status data)
                         (setCurrentStep (or_number (data_current_step data) 0)
                           (setLogs (or_array (data_logs data) []) rt)))
            in if data_status data = ''completed'' \<or> data_status data = ''failed''
               then setTimeout 1000 (clearInterval (issuer p) rt1)
               else rt1)"

definition poll_callback :: "poll \<Rightarrow> status_result \<Rightarrow> runtime \<Rightarrow> runtime" where
  "poll_callback p r rt = poll_effect (ui rt) (on_status p r rt)"

text \<open>A pending timeout fires: \<open>setView("result")\<close>.\<close>

definition fire_timeout :: "runtime \<Rightarrow> runtime" where
  "fire_timeout rt =
     (case timeouts rt of
        [] \<Rightarrow> rt
      | ms # rest \<Rightarrow> poll_effect (ui rt) (setView ''result'' (rt\<lparr>timeouts := rest\<rparr>)))"

subsection \<open>\<open>handleSubmit\<close> and \<open>reset\<close>\<close>

text \<open>\<open>handleSubmit\<close> up to its \<open>await\<close>: the request is sent with the two form fields.\<close>

definition handleSubmit_begin :: "runtime \<Rightarrow> runtime" where
  "handleSubmit_begin rt =
     (setStatus ''pending'' (setCurrentStep 0 (setLogs [] (setLoading True rt))))
       \<lparr>submits := submits rt @ [(instanceId (ui rt), context_text (ui rt))]\<rparr>"

text \<open>\<open>handleSubmit\<close> from its \<open>await\<close> on: the \<open>try\<close> body, the \<open>catch\<close> block (which also
  receives the \<open>Error\<close> thrown when \<open>data.run_id\<close> is falsy: absent or empty) and the
  \<open>finally\<close> block. The \<open>catch\<close> block sets the status and raises the alert dialog.\<close>

definition submit_failed :: "runtime \<Rightarrow> runtime" where
  "submit_failed rt = (setStatus ''failed'' rt)\<lparr>alerts := Suc (alerts rt)\<rparr>"

definition handleSubmit_resume :: "run_result \<Rightarrow> runtime \<Rightarrow> runtime" where
  "handleSubmit_resume r rt =
     poll_effect (ui rt)
       (setLoading False
         (case r of
            RunThrew \<Rightarrow> submit_failed rt
          | RunJson None \<Rightarrow> submit_failed rt
          | RunJson (Some run_id) \<Rightarrow>
              if run_id = [] then submit_failed rt
              else setView ''hud'' (setStatus ''processing'' (setRunId run_id rt))))"

definition reset :: "runtime \<Rightarrow> runtime" where
  "reset rt =
     poll_effect (ui rt)
       (setPatch [] (setCurrentStep 0 (setLogs [] (setStatus ''idle'' (setRunId []
         (setContext [] (setInstanceId [] (setView ''input'' rt))))))))"

subsection \<open>What is rendered\<close>

text \<open>\<open>Results\<close>: the heading, and the patch panel with its download button, both under
  \<open>isSuccess && patch\<close>.\<close>

definition isSuccess :: "string \<Rightarrow> bool" where
  "isSuccess st = (st = ''completed'')"

definition Results_heading :: "string \<Rightarrow> string" where
  "Results_heading st = (if isSuccess st then ''Issue Resolved'' else ''Fix Failed'')"

definition Results_patch :: "string \<Rightarrow> string \<Rightarrow> string option" where
  "Results_patch st p = (if isSuccess st \<and> p \<noteq> [] then Some p else None)"

text \<open>The three branches of \<open>Home\<close>'s \<open>AnimatePresence\<close>.\<close>

datatype screen =
    InputForm string string bool
  | AgentView int "string list"
  | Results string "string option"
  | Blank

definition Home :: "home \<Rightarrow> screen" where
  "Home u =
     (if view u = ''input'' then InputForm (instanceId u) (context_text u) (loading u)
      else if view u = ''hud'' then AgentView (currentStep u) (logs u)
      else if view u = ''result''
        then Results (Results_heading (status u)) (Results_patch (status u) (patch u))
      else Blank)"

text \<open>
  \<open>StatusBar\<close>. \<open>STATUS_COLORS\<close> is an object literal, so \<open>STATUS_COLORS[status]\<close> finds
  the four own keys and, for any other key, what the literal inherits from
  \<open>Object.prototype\<close>: the members of the language standard and of its annex for browsers.
  An inherited member is a function or an object, hence truthy, and the class written
  into the page is then that member converted to a string, which is no colour class; the
  model keeps the member's name.
\<close>

datatype colour = ClassName string | Inherited string

definition STATUS_COLORS :: "(string \<times> string) list" where
  "STATUS_COLORS =
     [(''idle'', ''bg-zinc-500''), (''processing'', ''bg-amber-500''),
      (''completed'', ''bg-emerald-500''), (''error'', ''bg-rose-500'')]"

definition Object_prototype :: "string list" where
  "Object_prototype =
     [''constructor'', ''hasOwnProperty'', ''isPrototypeOf'', ''propertyIsEnumerable'',
      ''toLocaleString'', ''toString'', ''valueOf'', ''__proto__'', ''__defineGetter__'',
      ''__defineSetter__'', ''__lookupGetter__'', ''__lookupSetter__'']"

text \<open>\<open>STATUS_COLORS[key]\<close>: an own property first, then the prototype, else
  \<open>undefined\<close>.\<close>

definition STATUS_COLORS_at :: "string \<Rightarrow> colour option" where
  "STATUS_COLORS_at key =
     (case map_of STATUS_COLORS key of
        Some c \<Rightarrow> Some (ClassName c)
      | None \<Rightarrow> if key \<in> set Object_prototype then Some (Inherited key) else None)"

text \<open>\<open>x || d\<close> on the result of such a read: \<open>undefined\<close> and the empty string are
  falsy.\<close>

definition or_colour :: "colour option \<Rightarrow> colour \<Rightarrow> colour" where
  "or_colour x d =
     (case x of
        None \<Rightarrow> d
      | Some (ClassName c) \<Rightarrow> if c = [] then d else ClassName c
      | Some (Inherited m) \<Rightarrow> Inherited m)"

text \<open>\<open>STATUS_COLORS[status] || STATUS_COLORS.error\<close>; an \<open>undefined\<close> in a template literal
  is written as the word \<open>undefined\<close>.\<close>

definition StatusBar_color :: "string \<Rightarrow> colour" where
  "StatusBar_color st =
     or_colour (STATUS_COLORS_at st)
       (case STATUS_COLORS_at ''error'' of None \<Rightarrow> ClassName ''undefined'' | Some c \<Rightarrow> c)"

text \<open>The colour of the dot, the status text, and the first eight characters of a
  non-empty \<open>runId\<close>.\<close>

definition StatusBar :: "home \<Rightarrow> colour \<times> string \<times> string option" where
  "StatusBar u =
     (StatusBar_color (status u), status u,
      if runId u = [] then None else Some (take 8 (runId u)))"

subsection \<open>Events\<close>

text \<open>
  What the browser can run next: a tick of the interval, the resolution of the \<open>k\<close>-th
  outstanding status request, a pending timeout, typing into the form, the submit button
  (the form is on screen when the view is \<open>"input"\<close>), the resolution of the oldest start
  request, and the \<open>New Session\<close> button of \<open>Results\<close> (on screen when the view is
  \<open>"result"\<close>). An event that cannot happen in a state leaves it unchanged.
\<close>

datatype event =
    Tick
  | Status nat status_result
  | Timeout
  | TypeInstanceId string
  | TypeContext string
  | Submit
  | Started run_result
  | Reset

fun step :: "event \<Rightarrow> runtime \<Rightarrow> runtime" where
  "step Tick rt = tick rt"
| "step (Status k r) rt =
     (if k < length (inflight rt)
      then poll_callback (inflight rt ! k) r
             (rt\<lparr>inflight := take k (inflight rt) @ drop (Suc k) (inflight rt)\<rparr>)
      else rt)"
| "step Timeout rt = fire_timeout rt"
| "step (TypeInstanceId v) rt = (if view (ui rt) = ''input'' then setInstanceId v rt else rt)"
| "step (TypeContext v) rt = (if view (ui rt) = ''input'' then setContext v rt else rt)"
| "step Submit rt = (if view (ui rt) = ''input'' then handleSubmit_begin rt else rt)"
| "step (Started r) rt =
     (case submits rt of
        [] \<Rightarrow> rt
      | req # rest \<Rightarrow> handleSubmit_resume r (rt\<lparr>submits := rest\<rparr>))"
| "step Reset rt = (if view (ui rt) = ''result'' then reset rt else rt)"

fun run :: "event list \<Rightarrow> runtime \<Rightarrow> runtime" where
  "run [] rt = rt"
| "run (e # es) rt = run es (step e rt)"

subsection \<open>The timer invariant and the example states\<close>

text \<open>A live interval belongs to the run on screen: it exists only while the view is
  \<open>"hud"\<close>, it captured the current \<open>runId\<close>, and its period is 1500 ms.\<close>

definition timer_ok :: "home \<Rightarrow> runtime \<Rightarrow> bool" where
  "timer_ok u rt =
     (case pollInterval rt of
        None \<Rightarrow> True
      | Some t \<Rightarrow> view u = ''hud'' \<and> runId u \<noteq> [] \<and> captured_runId t = runId u \<and>
                  period_ms t = 1500)"

text \<open>A run started from the initial state, with its first status request sent.\<close>

definition example_trace :: "event list" where
  "example_trace =
     [TypeInstanceId ''proj__proj-123'', Submit, Started (RunJson (Some ''abc123'')), Tick]"

definition example_active :: runtime where
  "example_active = run example_trace initial"

definition example_completed :: status_payload where
  "example_completed =
     \<lparr>data_run_id = ''abc123'', data_status = ''completed'', data_logs = None,
      data_current_step = None, data_patch = Some ''--- a/x.py'', data_error = None\<rparr>"

definition example_processing :: status_payload where
  "example_processing =
     \<lparr>data_run_id = ''abc123'', data_status = ''processing'',
      data_logs = Some [''starting'', ''analyzing''], data_current_step = Some 2,
      data_patch = Some ''partial'', data_error = None\<rparr>"


definition example_error :: status_payload where
  "example_error =
     \<lparr>data_run_id = ''abc123'', data_status = ''processing'', data_logs = Some [''starting''],
      data_current_step = Some 1, data_patch = Some ''partial'', data_error = Some ''boom''\<rparr>"

definition example_starting :: status_payload where
  "example_starting =
     \<lparr>data_run_id = ''abc123'', data_status = ''pending'', data_logs = Some [''starting''],
      data_current_step = Some 1, data_patch = None, data_error = None\<rparr>"

text \<open>A body whose \<open>error\<close> field is present and empty.\<close>

definition example_empty_error :: status_payload where
  "example_empty_error =
     \<lparr>data_run_id = ''abc123'', data_status = ''processing'', data_logs = Some [''starting''],
      data_current_step = Some 1, data_patch = None, data_error = Some []\<rparr>"

text \<open>The run of \<open>example_active\<close> after a second tick, with the first request answered by
  an error: the result view is on screen and the second request is still outstanding.\<close>

definition example_overlap :: runtime where
  "example_overlap = step (Status 0 (Json example_error)) (step Tick example_active)"

text \<open>The run of \<open>example_active\<close> after a second tick: two requests are outstanding.\<close>

definition example_two_polls :: runtime where
  "example_two_polls = step Tick example_active"


text \<open>A progress observation that carries a patch, then a request that fails.\<close>

definition example_partial_then_error :: runtime where
  "example_partial_then_error =
     run [Status 0 (Json example_processing), Tick, Status 0 Threw] example_active"

text \<open>A submission whose start request is rejected.\<close>

definition example_failed_start :: runtime where
  "example_failed_start =
     run [TypeInstanceId ''proj__proj-123'', Submit, Started RunThrew] initial"

section \<open>Properties\<close>

subsection \<open>Unfolding and the example states\<close>

lemmas setters =
  setView_def setInstanceId_def setContext_def setRunId_def setStatus_def
  setCurrentStep_def setLogs_def setLoading_def setPatch_def

lemmas handlers =
  poll_callback_def on_status_def poll_effect_def clearInterval_def setTimeout_def
  fire_timeout_def tick_def handleSubmit_begin_def handleSubmit_resume_def submit_failed_def
  reset_def truthy_def or_string_def or_array_def or_number_def

lemmas screens =
  Home_def Results_heading_def Results_patch_def isSuccess_def StatusBar_def
  StatusBar_color_def STATUS_COLORS_def

lemma example_run_eq:
  "run example_trace initial =
     \<lparr>ui = \<lparr>view = ''hud'', instanceId = ''proj__proj-123'', context_text = [],
            runId = ''abc123'', status = ''processing'', currentStep = 0, logs = [],
            loading = False, patch = []\<rparr>,
      pollInterval = Some (Interval 0 ''abc123'' 1500), next_timer = 1,
      inflight = [Poll 0 ''abc123''], timeouts = [], submits = [], alerts = 0\<rparr>"
  by (simp add: example_trace_def initial_def handlers setters)

lemma example_active_eq:
  "example_active =
     \<lparr>ui = \<lparr>view = ''hud'', instanceId = ''proj__proj-123'', context_text = [],
            runId = ''abc123'', status = ''processing'', currentStep = 0, logs = [],
            loading = False, patch = []\<rparr>,
      pollInterval = Some (Interval 0 ''abc123'' 1500), next_timer = 1,
      inflight = [Poll 0 ''abc123''], timeouts = [], submits = [], alerts = 0\<rparr>"
  unfolding example_active_def by (rule example_run_eq)

lemma example_overlap_eq:
  "example_overlap =
     \<lparr>ui = \<lparr>view = ''result'', instanceId = ''proj__proj-123'', context_text = [],
            runId = ''abc123'', status = ''failed'', currentStep = 0, logs = [],
            loading = False, patch = []\<rparr>,
      pollInterval = None, next_timer = 1,
      inflight = [Poll 0 ''abc123''], timeouts = [], submits = [], alerts = 0\<rparr>"
  by (simp add: example_overlap_def example_active_eq example_error_def handlers setters)

lemma example_partial_then_error_eq:
  "ui example_partial_then_error =
     \<lparr>view = ''result'', instanceId = ''proj__proj-123'', context_text = [],
      runId = ''abc123'', status = ''failed'', currentStep = 2,
      logs = [''starting'', ''analyzing''], loading = False, patch = ''partial''\<rparr>"
  by (simp add: example_partial_then_error_def example_active_eq example_processing_def
      handlers setters)

subsection \<open>The timer invariant holds in every reachable state\<close>

lemma poll_effect_ok:
  "timer_ok old rt \<Longrightarrow> timer_ok (ui (poll_effect old rt)) (poll_effect old rt)"
  by (auto simp: timer_ok_def poll_effect_def split: option.splits)

lemma on_status_ok: "timer_ok (ui rt) rt \<Longrightarrow> timer_ok (ui rt) (on_status p r rt)"
  by (auto simp: timer_ok_def on_status_def clearInterval_def setters setTimeout_def Let_def
      split: option.splits status_result.splits)

lemma poll_callback_ok:
  "timer_ok (ui rt) rt \<Longrightarrow> timer_ok (ui (poll_callback p r rt)) (poll_callback p r rt)"
  unfolding poll_callback_def by (intro poll_effect_ok on_status_ok)

lemma step_ok: "timer_ok (ui rt) rt \<Longrightarrow> timer_ok (ui (step e rt)) (step e rt)"
proof (cases e)
  case Tick
  assume "timer_ok (ui rt) rt"
  then show ?thesis using Tick
    by (auto simp: timer_ok_def tick_def split: option.splits)
next
  case (Status k r)
  assume ok: "timer_ok (ui rt) rt"
  let ?rt = "rt\<lparr>inflight := take k (inflight rt) @ drop (Suc k) (inflight rt)\<rparr>"
  from ok have "timer_ok (ui ?rt) ?rt"
    by (auto simp: timer_ok_def split: option.splits)
  then show ?thesis using Status ok poll_callback_ok [of ?rt] by simp
next
  case Timeout
  assume ok: "timer_ok (ui rt) rt"
  show ?thesis
  proof (cases "timeouts rt")
    case Nil
    then show ?thesis using Timeout ok by (simp add: fire_timeout_def)
  next
    case (Cons ms rest)
    from ok have "timer_ok (ui rt) (setView ''result'' (rt\<lparr>timeouts := rest\<rparr>))"
      by (auto simp: timer_ok_def setters split: option.splits)
    then show ?thesis using Timeout Cons
      by (simp add: fire_timeout_def poll_effect_ok)
  qed
next
  case (TypeInstanceId v)
  assume "timer_ok (ui rt) rt"
  then show ?thesis using TypeInstanceId
    by (auto simp: timer_ok_def setters split: option.splits)
next
  case (TypeContext v)
  assume "timer_ok (ui rt) rt"
  then show ?thesis using TypeContext
    by (auto simp: timer_ok_def setters split: option.splits)
next
  case Submit
  assume "timer_ok (ui rt) rt"
  then show ?thesis using Submit
    by (auto simp: timer_ok_def setters handleSubmit_begin_def split: option.splits)
next
  case (Started r)
  assume ok: "timer_ok (ui rt) rt"
  show ?thesis
  proof (cases "submits rt")
    case Nil
    then show ?thesis using Started ok by simp
  next
    case (Cons req rest)
    let ?rt = "rt\<lparr>submits := rest\<rparr>"
    from ok have "timer_ok (ui ?rt) (setLoading False
         (case r of
            RunThrew \<Rightarrow> submit_failed ?rt
          | RunJson None \<Rightarrow> submit_failed ?rt
          | RunJson (Some run_id) \<Rightarrow>
              if run_id = [] then submit_failed ?rt
              else setView ''hud'' (setStatus ''processing'' (setRunId run_id ?rt))))"
      by (auto simp: timer_ok_def setters submit_failed_def
          split: run_result.splits option.splits)
    then show ?thesis using Started Cons
      by (simp add: handleSubmit_resume_def poll_effect_ok)
  qed
next
  case Reset
  assume ok: "timer_ok (ui rt) rt"
  then have "timer_ok (ui rt)
      (setPatch [] (setCurrentStep 0 (setLogs [] (setStatus ''idle'' (setRunId []
         (setContext [] (setInstanceId [] (setView ''input'' rt))))))))"
    by (auto simp: timer_ok_def setters split: option.splits)
  then show ?thesis using Reset ok
    by (simp add: reset_def poll_effect_ok)
qed

lemma run_ok: "timer_ok (ui rt) rt \<Longrightarrow> timer_ok (ui (run es rt)) (run es rt)"
  by (induction es arbitrary: rt) (simp_all add: step_ok)

lemma reachable_ok: "timer_ok (ui (run es initial)) (run es initial)"
  by (rule run_ok) (simp add: initial_def timer_ok_def)

subsection \<open>The branches of the status callback\<close>

lemma not_terminal:
  "s = ''pending'' \<or> s = ''processing'' \<Longrightarrow> s \<noteq> ''completed'' \<and> s \<noteq> ''failed''"
  by auto

lemma progress_step:
  assumes "\<not> truthy (data_error d)"
    and "data_status d \<noteq> ''completed''" and "data_status d \<noteq> ''failed''"
  shows "poll_callback p (Json d) rt =
     rt\<lparr>ui := (ui rt)\<lparr>logs := (case data_logs d of None \<Rightarrow> [] | Some l \<Rightarrow> l),
                       currentStep := (case data_current_step d of None \<Rightarrow> 0 | Some n \<Rightarrow> n),
                       status := data_status d,
                       patch := (case data_patch d of None \<Rightarrow> [] | Some x \<Rightarrow> x)\<rparr>\<rparr>"
  using assms
  by (simp add: poll_callback_def on_status_def poll_effect_def setters Let_def
      or_string_def or_array_def or_number_def split: option.splits)

lemma terminal_step:
  assumes "pollInterval rt = Some t" and "issuer p = timer_id t"
    and "\<not> truthy (data_error d)"
    and "data_status d = ''completed'' \<or> data_status d = ''failed''"
  shows "poll_callback p (Json d) rt =
     rt\<lparr>ui := (ui rt)\<lparr>logs := (case data_logs d of None \<Rightarrow> [] | Some l \<Rightarrow> l),
                       currentStep := (case data_current_step d of None \<Rightarrow> 0 | Some n \<Rightarrow> n),
                       status := data_status d,
                       patch := (case data_patch d of None \<Rightarrow> [] | Some x \<Rightarrow> x)\<rparr>,
        pollInterval := None, timeouts := timeouts rt @ [1000]\<rparr>"
  using assms
  by (simp add: poll_callback_def on_status_def poll_effect_def clearInterval_def setTimeout_def
      setters Let_def or_string_def or_array_def or_number_def split: option.splits)

lemma failure_branch:
  "view (ui rt) = ''hud'' \<Longrightarrow>
   poll_effect (ui rt) (setView ''result'' (setStatus ''failed'' (clearInterval h rt))) =
     rt\<lparr>ui := (ui rt)\<lparr>status := ''failed'', view := ''result''\<rparr>, pollInterval := None\<rparr>"
  by (simp add: poll_effect_def clearInterval_def setters split: option.splits)

lemma failure_branch_cb:
  "view (ui rt) = ''hud'' \<Longrightarrow> truthy (data_error d) \<Longrightarrow>
   poll_callback p (Json d) rt =
     rt\<lparr>ui := (ui rt)\<lparr>status := ''failed'', view := ''result''\<rparr>, pollInterval := None\<rparr>"
  by (simp add: poll_callback_def on_status_def failure_branch)

lemma settling_is_quiet:
  assumes "view (ui rt) = ''hud''" and "pollInterval rt = None"
  shows "case e of
           Status k r \<Rightarrow> True
         | Started r \<Rightarrow> True
         | Timeout \<Rightarrow> True
         | _ \<Rightarrow> step e rt = rt"
  using assms
  by (cases e) (simp_all add: tick_def)


lemma fire_timeout_nonempty:
  "timeouts rt \<noteq> [] \<Longrightarrow>
   fire_timeout rt = poll_effect (ui rt) (setView ''result'' (rt\<lparr>timeouts := tl (timeouts rt)\<rparr>))"
  by (cases "timeouts rt") (simp_all add: fire_timeout_def)

lemma example_two_polls_eq:
  "example_two_polls =
     \<lparr>ui = \<lparr>view = ''hud'', instanceId = ''proj__proj-123'', context_text = [],
            runId = ''abc123'', status = ''processing'', currentStep = 0, logs = [],
            loading = False, patch = []\<rparr>,
      pollInterval = Some (Interval 0 ''abc123'' 1500), next_timer = 1,
      inflight = [Poll 0 ''abc123'', Poll 0 ''abc123''], timeouts = [], submits = [],
      alerts = 0\<rparr>"
  by (simp add: example_two_polls_def example_active_eq tick_def)

lemma reset_ui: "ui (reset rt) = (ui initial)\<lparr>loading := loading (ui rt)\<rparr>"
  by (simp add: reset_def poll_effect_def setters initial_def)

lemma reset_timer: "timer_ok (ui rt) rt \<Longrightarrow> pollInterval (reset rt) = None"
  by (auto simp: reset_def poll_effect_def setters timer_ok_def split: option.splits)

lemma reset_rest:
  "inflight (reset rt) = inflight rt \<and> timeouts (reset rt) = timeouts rt
   \<and> submits (reset rt) = submits rt"
  by (simp add: reset_def poll_effect_def setters)

subsection \<open>Terminal observations\<close>

text \<open>
  Claim C1, as stated, at the run of \<open>example_two_polls\<close>: two requests are outstanding on
  the \<open>"hud"\<close> view. The later one is answered with status \<open>"completed"\<close> and a patch. Then
  the earlier one is answered with status \<open>"processing"\<close>, and after the timeout \<open>Results\<close>
  shows \<open>Fix Failed\<close> and no patch; or the earlier one is rejected, and \<open>Results\<close> shows
  \<open>Fix Failed\<close> at once.
\<close>

theorem late_answer_after_completed:
  "view (ui example_two_polls) = ''hud''
   \<and> pollInterval example_two_polls = Some (Interval 0 ''abc123'' 1500)
   \<and> inflight example_two_polls = [Poll 0 ''abc123'', Poll 0 ''abc123'']
   \<and> status (ui (step (Status 1 (Json example_completed)) example_two_polls)) = ''completed''
   \<and> patch (ui (step (Status 1 (Json example_completed)) example_two_polls)) = ''--- a/x.py''
   \<and> Home (ui (run [Status 1 (Json example_completed), Status 0 (Json example_processing),
                    Timeout] example_two_polls)) = Results ''Fix Failed'' None
   \<and> Home (ui (run [Status 1 (Json example_completed), Status 0 Threw] example_two_polls))
       = Results ''Fix Failed'' None"
  by (simp add: example_two_polls_eq example_completed_def example_processing_def
      handlers setters screens)

text \<open>
  Claim C1, amended. The run is on the \<open>"hud"\<close> view with its interval live, and an
  observation answers one of the requests that this interval sent, whatever else is
  outstanding; its payload has no truthy \<open>error\<close> and its status is \<open>"completed"\<close> or
  \<open>"failed"\<close>. The callback stores the observation, stops the interval and schedules one
  more timeout of 1000 ms while the view stays \<open>"hud"\<close>. In that state a tick, typing, the
  submit button and the reset button change nothing: only the answer to another
  outstanding request or a timeout does. When a timeout fires next, the view becomes
  \<open>"result"\<close> with the status and the patch of that observation, and \<open>Results\<close> shows
  \<open>Issue Resolved\<close> with the patch for \<open>"completed"\<close> and \<open>Fix Failed\<close> for \<open>"failed"\<close>.
\<close>

theorem terminal_status_settles_then_result:
  assumes "view (ui rt) = ''hud''" and "pollInterval rt = Some t"
    and "k < length (inflight rt)" and "issuer (inflight rt ! k) = timer_id t"
    and "\<not> truthy (data_error d)"
    and "data_status d = ''completed'' \<or> data_status d = ''failed''"
  shows "pollInterval (step (Status k (Json d)) rt) = None
    \<and> view (ui (step (Status k (Json d)) rt)) = ''hud''
    \<and> timeouts (step (Status k (Json d)) rt) = timeouts rt @ [1000]
    \<and> inflight (step (Status k (Json d)) rt) = take k (inflight rt) @ drop (Suc k) (inflight rt)
    \<and> status (ui (step (Status k (Json d)) rt)) = data_status d
    \<and> patch (ui (step (Status k (Json d)) rt)) =
        (case data_patch d of None \<Rightarrow> [] | Some x \<Rightarrow> x)
    \<and> (case e of
          Status k' r \<Rightarrow> True
        | Started r \<Rightarrow> True
        | Timeout \<Rightarrow> True
        | _ \<Rightarrow> step e (step (Status k (Json d)) rt) = step (Status k (Json d)) rt)
    \<and> timeouts (step Timeout (step (Status k (Json d)) rt)) = tl (timeouts rt @ [1000])
    \<and> pollInterval (step Timeout (step (Status k (Json d)) rt)) = None
    \<and> view (ui (step Timeout (step (Status k (Json d)) rt))) = ''result''
    \<and> status (ui (step Timeout (step (Status k (Json d)) rt))) = data_status d
    \<and> patch (ui (step Timeout (step (Status k (Json d)) rt))) =
        (case data_patch d of None \<Rightarrow> [] | Some x \<Rightarrow> x)
    \<and> Home (ui (step Timeout (step (Status k (Json d)) rt))) =
        (if data_status d = ''completed''
         then Results ''Issue Resolved''
                (case data_patch d of None \<Rightarrow> None | Some x \<Rightarrow> if x = [] then None else Some x)
         else Results ''Fix Failed'' None)"
proof -
  let ?rest = "take k (inflight rt) @ drop (Suc k) (inflight rt)"
  let ?rt0 = "rt\<lparr>inflight := ?rest\<rparr>"
  have settling: "step (Status k (Json d)) rt =
     rt\<lparr>ui := (ui rt)\<lparr>logs := (case data_logs d of None \<Rightarrow> [] | Some l \<Rightarrow> l),
                       currentStep := (case data_current_step d of None \<Rightarrow> 0 | Some n \<Rightarrow> n),
                       status := data_status d,
                       patch := (case data_patch d of None \<Rightarrow> [] | Some x \<Rightarrow> x)\<rparr>,
        pollInterval := None, timeouts := timeouts rt @ [1000], inflight := ?rest\<rparr>"
    using assms(2-6) terminal_step [of ?rt0 t "inflight rt ! k" d] by simp
  have settling_state: "pollInterval (step (Status k (Json d)) rt) = None
    \<and> view (ui (step (Status k (Json d)) rt)) = ''hud''
    \<and> timeouts (step (Status k (Json d)) rt) = timeouts rt @ [1000]
    \<and> inflight (step (Status k (Json d)) rt) = ?rest
    \<and> status (ui (step (Status k (Json d)) rt)) = data_status d
    \<and> patch (ui (step (Status k (Json d)) rt)) =
        (case data_patch d of None \<Rightarrow> [] | Some x \<Rightarrow> x)"
    unfolding settling using assms(1) by simp
  have quiet: "case e of
          Status k' r \<Rightarrow> True
        | Started r \<Rightarrow> True
        | Timeout \<Rightarrow> True
        | _ \<Rightarrow> step e (step (Status k (Json d)) rt) = step (Status k (Json d)) rt"
    by (rule settling_is_quiet) (simp_all add: settling_state del: step.simps)
  have fired: "step Timeout (step (Status k (Json d)) rt) =
     rt\<lparr>ui := (ui rt)\<lparr>logs := (case data_logs d of None \<Rightarrow> [] | Some l \<Rightarrow> l),
                       currentStep := (case data_current_step d of None \<Rightarrow> 0 | Some n \<Rightarrow> n),
                       status := data_status d,
                       patch := (case data_patch d of None \<Rightarrow> [] | Some x \<Rightarrow> x),
                       view := ''result''\<rparr>,
        pollInterval := None, timeouts := tl (timeouts rt @ [1000]), inflight := ?rest\<rparr>"
    unfolding settling using assms(1)
    by (simp add: fire_timeout_nonempty poll_effect_def setters)
  have screen: "Home (ui (step Timeout (step (Status k (Json d)) rt))) =
        (if data_status d = ''completed''
         then Results ''Issue Resolved''
                (case data_patch d of None \<Rightarrow> None | Some x \<Rightarrow> if x = [] then None else Some x)
         else Results ''Fix Failed'' None)"
    unfolding fired by (simp add: screens split: option.splits)
  have result_state: "timeouts (step Timeout (step (Status k (Json d)) rt)) =
        tl (timeouts rt @ [1000])
    \<and> pollInterval (step Timeout (step (Status k (Json d)) rt)) = None
    \<and> view (ui (step Timeout (step (Status k (Json d)) rt))) = ''result''
    \<and> status (ui (step Timeout (step (Status k (Json d)) rt))) = data_status d
    \<and> patch (ui (step Timeout (step (Status k (Json d)) rt))) =
        (case data_patch d of None \<Rightarrow> [] | Some x \<Rightarrow> x)"
    unfolding fired by simp
  from settling_state quiet result_state screen show ?thesis
    by (simp del: step.simps)
qed

text \<open>Claim C1, amended, on the run of \<open>example_two_polls\<close>: the later request is answered
  with the completed observation and the timeout fires next.\<close>

theorem terminal_status_settles_then_result_witness:
  "view (ui example_two_polls) = ''hud''
   \<and> pollInterval example_two_polls = Some (Interval 0 ''abc123'' 1500)
   \<and> inflight example_two_polls = [Poll 0 ''abc123'', Poll 0 ''abc123'']
   \<and> \<not> truthy (data_error example_completed)
   \<and> data_status example_completed = ''completed''
   \<and> timeouts (step (Status 1 (Json example_completed)) example_two_polls) = [1000]
   \<and> inflight (step (Status 1 (Json example_completed)) example_two_polls) = [Poll 0 ''abc123'']
   \<and> step Tick (step (Status 1 (Json example_completed)) example_two_polls) =
       step (Status 1 (Json example_completed)) example_two_polls
   \<and> Home (ui (step Timeout (step (Status 1 (Json example_completed)) example_two_polls))) =
       Results ''Issue Resolved'' (Some ''--- a/x.py'')"
proof -
  have hyps: "view (ui example_two_polls) = ''hud''"
    "pollInterval example_two_polls = Some (Interval 0 ''abc123'' 1500)"
    "1 < length (inflight example_two_polls)"
    "issuer (inflight example_two_polls ! 1) = timer_id (Interval 0 ''abc123'' 1500)"
    "\<not> truthy (data_error example_completed)"
    "data_status example_completed = ''completed'' \<or> data_status example_completed = ''failed''"
    by (simp_all add: example_two_polls_eq example_completed_def truthy_def)
  have rest: "inflight example_two_polls = [Poll 0 ''abc123'', Poll 0 ''abc123'']"
    "timeouts example_two_polls = []"
    by (simp_all add: example_two_polls_eq)
  from terminal_status_settles_then_result [OF hyps, where e = Tick]
  show ?thesis
    using hyps(1,2,5) rest by (simp add: example_completed_def del: step.simps)
qed

subsection \<open>Error observations\<close>

text \<open>
  Claim C2, as stated, at a payload that contains an \<open>error\<close> field whose value is the empty
  string: the test \<open>if (data.error)\<close> is false, the observation is applied and the run stays
  on the \<open>"hud"\<close> view with its interval live.
\<close>

theorem empty_error_field_is_applied:
  "data_error example_empty_error \<noteq> None
   \<and> view (ui (poll_callback (Poll 0 ''abc123'') (Json example_empty_error) example_active))
       = ''hud''
   \<and> status (ui (poll_callback (Poll 0 ''abc123'') (Json example_empty_error) example_active))
       = ''processing''
   \<and> logs (ui (poll_callback (Poll 0 ''abc123'') (Json example_empty_error) example_active))
       = [''starting'']
   \<and> currentStep (ui (poll_callback (Poll 0 ''abc123'') (Json example_empty_error) example_active))
       = 1
   \<and> pollInterval (poll_callback (Poll 0 ''abc123'') (Json example_empty_error) example_active)
       = Some (Interval 0 ''abc123'' 1500)"
proof -
  have "poll_callback (Poll 0 ''abc123'') (Json example_empty_error) example_active =
      example_active\<lparr>ui := (ui example_active)\<lparr>logs := [''starting''], currentStep := 1,
        status := ''processing'', patch := []\<rparr>\<rparr>"
    by (subst progress_step) (simp_all add: example_empty_error_def truthy_def)
  then show ?thesis
    by (simp add: example_active_eq example_empty_error_def)
qed

text \<open>
  Claim C2, amended. On the \<open>"hud"\<close> view, an observation whose \<open>error\<close> value is truthy
  (present and non-empty) sets the status to \<open>"failed"\<close> and the view to \<open>"result"\<close> at once:
  the interval is stopped, no timeout is scheduled, and the logs, the step index and the
  patch in the store are the ones from before the observation.
\<close>

theorem error_value_fails_at_once:
  assumes "view (ui rt) = ''hud''" and "truthy (data_error d)"
  shows "ui (poll_callback p (Json d) rt) = (ui rt)\<lparr>status := ''failed'', view := ''result''\<rparr>
    \<and> pollInterval (poll_callback p (Json d) rt) = None
    \<and> timeouts (poll_callback p (Json d) rt) = timeouts rt
    \<and> inflight (poll_callback p (Json d) rt) = inflight rt
    \<and> Home (ui (poll_callback p (Json d) rt)) = Results ''Fix Failed'' None"
  using assms
  by (simp add: failure_branch_cb screens)

text \<open>Claim C2, amended, on the example run.\<close>

theorem error_value_fails_at_once_witness:
  "view (ui example_active) = ''hud'' \<and> truthy (data_error example_error)
   \<and> ui (poll_callback (Poll 0 ''abc123'') (Json example_error) example_active) =
       \<lparr>view = ''result'', instanceId = ''proj__proj-123'', context_text = [],
        runId = ''abc123'', status = ''failed'', currentStep = 0, logs = [],
        loading = False, patch = []\<rparr>
   \<and> timeouts (poll_callback (Poll 0 ''abc123'') (Json example_error) example_active) = []"
proof -
  have hyps: "view (ui example_active) = ''hud''" "truthy (data_error example_error)"
    by (simp_all add: example_active_eq example_error_def truthy_def)
  from error_value_fails_at_once [OF hyps, where p = "Poll 0 ''abc123''"]
  show ?thesis
    using hyps by (simp add: example_active_eq)
qed

subsection \<open>Progress observations\<close>

text \<open>
  Claim C3. On the \<open>"hud"\<close> view, after any non-empty sequence of observations without a
  truthy \<open>error\<close> and with status \<open>"pending"\<close> or \<open>"processing"\<close>, the view is still \<open>"hud"\<close>,
  the interval and the pending timeouts are unchanged, and the logs, the step index and
  the status in the store are those of the last observation alone.
\<close>

theorem progress_observations_replace_snapshot:
  assumes "view (ui rt) = ''hud''" and "pds \<noteq> []"
    and "\<forall>pd \<in> set pds. \<not> truthy (data_error (snd pd)) \<and>
           (data_status (snd pd) = ''pending'' \<or> data_status (snd pd) = ''processing'')"
  shows "view (ui (foldl (\<lambda>s pd. poll_callback (fst pd) (Json (snd pd)) s) rt pds)) = ''hud''
    \<and> pollInterval (foldl (\<lambda>s pd. poll_callback (fst pd) (Json (snd pd)) s) rt pds)
        = pollInterval rt
    \<and> timeouts (foldl (\<lambda>s pd. poll_callback (fst pd) (Json (snd pd)) s) rt pds) = timeouts rt
    \<and> logs (ui (foldl (\<lambda>s pd. poll_callback (fst pd) (Json (snd pd)) s) rt pds)) =
        (case data_logs (snd (last pds)) of None \<Rightarrow> [] | Some l \<Rightarrow> l)
    \<and> currentStep (ui (foldl (\<lambda>s pd. poll_callback (fst pd) (Json (snd pd)) s) rt pds)) =
        (case data_current_step (snd (last pds)) of None \<Rightarrow> 0 | Some n \<Rightarrow> n)
    \<and> status (ui (foldl (\<lambda>s pd. poll_callback (fst pd) (Json (snd pd)) s) rt pds)) =
        data_status (snd (last pds))"
  using assms(2,1,3)
proof (induction pds rule: rev_nonempty_induct)
  case (single pd)
  then have "\<not> truthy (data_error (snd pd))"
    and "data_status (snd pd) = ''pending'' \<or> data_status (snd pd) = ''processing''"
    by simp_all
  then show ?case
    using single(1) not_terminal [of "data_status (snd pd)"] by (simp add: progress_step)
next
  case (snoc pd pds)
  then have "\<not> truthy (data_error (snd pd))"
    and "data_status (snd pd) = ''pending'' \<or> data_status (snd pd) = ''processing''"
    by simp_all
  moreover from snoc
  have "view (ui (foldl (\<lambda>s pd. poll_callback (fst pd) (Json (snd pd)) s) rt pds)) = ''hud''
    \<and> pollInterval (foldl (\<lambda>s pd. poll_callback (fst pd) (Json (snd pd)) s) rt pds)
        = pollInterval rt
    \<and> timeouts (foldl (\<lambda>s pd. poll_callback (fst pd) (Json (snd pd)) s) rt pds) = timeouts rt"
    by simp
  ultimately show ?case
    using not_terminal [of "data_status (snd pd)"] by (simp add: progress_step)
qed

text \<open>Claim C3 on the example run: two observations, the second one's logs and step
  replace the first one's.\<close>

theorem progress_observations_replace_snapshot_witness:
  "view (ui example_active) = ''hud''
   \<and> logs (ui (foldl (\<lambda>s pd. poll_callback (fst pd) (Json (snd pd)) s) example_active
        [(Poll 0 ''abc123'', example_starting), (Poll 0 ''abc123'', example_processing)]))
       = [''starting'', ''analyzing'']
   \<and> currentStep (ui (foldl (\<lambda>s pd. poll_callback (fst pd) (Json (snd pd)) s) example_active
        [(Poll 0 ''abc123'', example_starting), (Poll 0 ''abc123'', example_processing)]))
       = 2"
proof -
  have hyps: "view (ui example_active) = ''hud''"
    "[(Poll 0 ''abc123'', example_starting), (Poll 0 ''abc123'', example_processing)] \<noteq> []"
    "\<forall>pd \<in> set [(Poll 0 ''abc123'', example_starting), (Poll 0 ''abc123'', example_processing)].
       \<not> truthy (data_error (snd pd)) \<and>
       (data_status (snd pd) = ''pending'' \<or> data_status (snd pd) = ''processing'')"
    by (simp_all add: example_active_eq example_starting_def example_processing_def
        truthy_def)
  from progress_observations_replace_snapshot [OF hyps]
  show ?thesis
    using hyps(1) by (simp add: example_processing_def del: foldl.simps)
qed

subsection \<open>Reset and late responses\<close>

text \<open>
  Claim C4, as stated, at the run of \<open>example_overlap\<close>: two requests were sent for run
  \<open>abc123\<close>, the first answer ended the run, the second request is still outstanding. After
  \<open>reset\<close> the cells are the initial ones and the request is still outstanding; when its
  answer arrives it is written into the cleared session, and, if a new run \<open>def456\<close> was
  started in between, into the session of that run.
\<close>

theorem late_response_mutates_session:
  "ui (step Reset example_overlap) = ui initial
   \<and> inflight (step Reset example_overlap) = [Poll 0 ''abc123'']
   \<and> ui (step (Status 0 (Json example_processing)) (step Reset example_overlap)) =
       (ui initial)\<lparr>status := ''processing'', currentStep := 2,
          logs := [''starting'', ''analyzing''], patch := ''partial''\<rparr>
   \<and> ui (run [Reset, TypeInstanceId ''other__issue-7'', Submit,
              Started (RunJson (Some ''def456'')), Status 0 (Json example_processing)]
          example_overlap) =
       \<lparr>view = ''hud'', instanceId = ''other__issue-7'', context_text = [],
        runId = ''def456'', status = ''processing'', currentStep = 2,
        logs = [''starting'', ''analyzing''], loading = False, patch = ''partial''\<rparr>"
  by (simp add: example_overlap_eq example_processing_def initial_def handlers setters)

text \<open>
  Claim C4, amended. In every reachable state \<open>reset\<close> puts the view, both form fields, the
  run identifier, the status, the logs, the step index and the patch back to their initial
  values (the \<open>loading\<close> flag is not touched) and leaves no interval live, so that a tick
  after it sends nothing; the requests already sent and the timeouts already scheduled
  stay outstanding.
\<close>

theorem reset_clears_cells_and_timer:
  "ui (reset (run es initial)) = (ui initial)\<lparr>loading := loading (ui (run es initial))\<rparr>
   \<and> pollInterval (reset (run es initial)) = None
   \<and> tick (reset (run es initial)) = reset (run es initial)
   \<and> inflight (reset (run es initial)) = inflight (run es initial)
   \<and> timeouts (reset (run es initial)) = timeouts (run es initial)"
proof -
  have "pollInterval (reset (run es initial)) = None"
    by (rule reset_timer) (rule reachable_ok)
  then show ?thesis
    by (simp add: reset_ui reset_rest tick_def)
qed

text \<open>Claim C4, amended, on the example run.\<close>

theorem reset_clears_cells_and_timer_witness:
  "ui (reset (run example_trace initial)) = ui initial
   \<and> pollInterval (reset (run example_trace initial)) = None
   \<and> inflight (reset (run example_trace initial)) = [Poll 0 ''abc123'']"
proof -
  from reset_clears_cells_and_timer [of example_trace]
  show ?thesis
    unfolding example_run_eq by (simp add: initial_def)
qed

subsection \<open>A start request that fails\<close>

text \<open>
  Claim C5, as stated, at a submission whose start request is rejected: the status is
  \<open>"failed"\<close> but the view is still \<open>"input"\<close>; the form is on screen, not \<open>Results\<close>.
\<close>

theorem failed_start_stays_on_form:
  "Home (ui example_failed_start) = InputForm ''proj__proj-123'' [] False
   \<and> view (ui example_failed_start) \<noteq> ''result''
   \<and> status (ui example_failed_start) = ''failed''"
  by (simp add: example_failed_start_def initial_def handlers setters screens)

text \<open>
  Claim C5, amended. When the form is on screen and no other start request is outstanding,
  a submission whose start request is rejected, or answered without a \<open>run_id\<close> or with an
  empty one, changes only this: the logs and the step index are cleared, the status is
  \<open>"failed"\<close>, \<open>loading\<close> is false and one alert was raised. The view, the run identifier,
  the interval and the outstanding requests are what they were.
\<close>

theorem failed_start_stores_no_run:
  assumes "r = RunThrew \<or> r = RunJson None \<or> r = RunJson (Some [])"
    and "view (ui rt) = ''input''" and "submits rt = []"
  shows "step (Started r) (step Submit rt) =
     rt\<lparr>ui := (ui rt)\<lparr>logs := [], currentStep := 0, status := ''failed'', loading := False\<rparr>,
        alerts := Suc (alerts rt)\<rparr>"
proof -
  have submitted: "step Submit rt =
      (rt\<lparr>ui := (ui rt)\<lparr>loading := True, logs := [], currentStep := 0, status := ''pending''\<rparr>,
          submits := [(instanceId (ui rt), context_text (ui rt))]\<rparr>)"
    using assms(2,3) by (simp add: handleSubmit_begin_def setters)
  have same: "rt\<lparr>submits := []\<rparr> = rt"
    using assms(3) by (cases rt) simp
  from assms(1) have "step (Started r) (step Submit rt) =
     (rt\<lparr>submits := []\<rparr>)\<lparr>ui := (ui rt)\<lparr>logs := [], currentStep := 0, status := ''failed'',
        loading := False\<rparr>, alerts := Suc (alerts rt)\<rparr>"
    unfolding submitted
    by (elim disjE) (simp_all add: handleSubmit_resume_def submit_failed_def poll_effect_def setters)
  then show ?thesis
    by (simp only: same)
qed

text \<open>Claim C5, amended, at the initial state with a response that has no \<open>run_id\<close>.\<close>

theorem failed_start_stores_no_run_witness:
  "view (ui initial) = ''input'' \<and> submits initial = []
   \<and> runId (ui (step (Started (RunJson None)) (step Submit initial))) = []
   \<and> pollInterval (step (Started (RunJson None)) (step Submit initial)) = None
   \<and> view (ui (step (Started (RunJson None)) (step Submit initial))) = ''input''
   \<and> status (ui (step (Started (RunJson None)) (step Submit initial))) = ''failed''"
  using failed_start_stores_no_run [of "RunJson None" initial]
  by (simp add: initial_def)

subsection \<open>Ticks and outstanding requests\<close>

text \<open>
  Claim C6, as stated, at the example run: one request is outstanding, the next tick is not
  skipped, and two requests for the same run are outstanding.
\<close>

theorem second_tick_is_not_skipped:
  "inflight example_active = [Poll 0 ''abc123'']
   \<and> inflight (step Tick example_active) = [Poll 0 ''abc123'', Poll 0 ''abc123'']"
  by (simp add: example_active_eq tick_def)

text \<open>
  Claim C6, amended. In every reachable state a live interval has period 1500 ms and
  belongs to the run on screen, and each of its ticks sends one more status request for
  that run, whatever is outstanding; without a live interval a tick sends nothing.
\<close>

theorem every_tick_sends_a_request:
  "(case pollInterval (run es initial) of
      None \<Rightarrow> tick (run es initial) = run es initial
    | Some t \<Rightarrow>
        period_ms t = 1500 \<and> captured_runId t = runId (ui (run es initial)) \<and>
        view (ui (run es initial)) = ''hud'' \<and>
        inflight (tick (run es initial)) =
          inflight (run es initial) @ [Poll (timer_id t) (runId (ui (run es initial)))])"
  using reachable_ok [of es]
  by (simp add: timer_ok_def tick_def split: option.splits)

text \<open>Claim C6, amended, on the example run.\<close>

theorem every_tick_sends_a_request_witness:
  "pollInterval (run example_trace initial) = Some (Interval 0 ''abc123'' 1500)
   \<and> inflight (tick (run example_trace initial)) = [Poll 0 ''abc123'', Poll 0 ''abc123'']"
  using every_tick_sends_a_request [of example_trace]
  by (simp add: example_run_eq)

subsection \<open>A status request that fails\<close>

text \<open>
  Claim C7. On the \<open>"hud"\<close> view, a status request that is rejected sets the status to
  \<open>"failed"\<close> and the view to \<open>"result"\<close> at once and stops the interval: no request is sent
  again by the callback or by a later tick, no timeout is scheduled, and the resulting state
  is the one that an observation with a truthy \<open>error\<close> produces.
\<close>

theorem poll_transport_failure_is_fatal:
  assumes "view (ui rt) = ''hud''"
  shows "ui (poll_callback p Threw rt) = (ui rt)\<lparr>status := ''failed'', view := ''result''\<rparr>
    \<and> pollInterval (poll_callback p Threw rt) = None
    \<and> tick (poll_callback p Threw rt) = poll_callback p Threw rt
    \<and> inflight (poll_callback p Threw rt) = inflight rt
    \<and> timeouts (poll_callback p Threw rt) = timeouts rt
    \<and> Home (ui (poll_callback p Threw rt)) = Results ''Fix Failed'' None
    \<and> poll_callback p Threw rt = poll_callback p (Json (d\<lparr>data_error := Some (c # cs)\<rparr>)) rt"
  using assms
  by (simp add: poll_callback_def on_status_def failure_branch truthy_def tick_def screens)

text \<open>Claim C7 on the example run.\<close>

theorem poll_transport_failure_is_fatal_witness:
  "view (ui example_active) = ''hud''
   \<and> poll_callback (Poll 0 ''abc123'') Threw example_active =
       example_active\<lparr>ui := (ui example_active)\<lparr>status := ''failed'', view := ''result''\<rparr>,
         pollInterval := None\<rparr>
   \<and> poll_callback (Poll 0 ''abc123'') Threw example_active =
       poll_callback (Poll 0 ''abc123'') (Json example_error) example_active"
  using poll_transport_failure_is_fatal
    [where rt = example_active and p = "Poll 0 ''abc123''" and d = example_error
       and c = "CHR ''b''" and cs = "''oom''"]
  by (simp add: example_active_eq example_error_def handlers setters)

subsection \<open>The result view\<close>

text \<open>
  Claim C8. On the \<open>"result"\<close> view with a status other than \<open>"completed"\<close>, \<open>Results\<close> shows
  \<open>Fix Failed\<close> and neither the patch panel nor the download button, whatever patch is in
  the store; the panel and the button are shown exactly when the status is \<open>"completed"\<close>
  and the stored patch is non-empty. In particular, a run that stored a non-empty patch
  from a progress observation and then lost a status request ends on the \<open>"result"\<close> view
  with that patch still in the store and nothing of it shown.
\<close>

theorem failed_result_shows_no_patch:
  assumes "view (ui rt) = ''hud''"
    and "\<not> truthy (data_error d)"
    and "data_status d \<noteq> ''completed''" and "data_status d \<noteq> ''failed''"
    and "data_patch d = Some x" and "x \<noteq> []"
  shows "patch (ui (poll_callback q Threw (poll_callback p (Json d) rt))) = x
    \<and> view (ui (poll_callback q Threw (poll_callback p (Json d) rt))) = ''result''
    \<and> Home (ui (poll_callback q Threw (poll_callback p (Json d) rt))) =
        Results ''Fix Failed'' None
    \<and> (view u = ''result'' \<and> status u \<noteq> ''completed'' \<longrightarrow>
          Home u = Results ''Fix Failed'' None)
    \<and> (Home u = Results h (Some y) \<longleftrightarrow>
          view u = ''result'' \<and> status u = ''completed'' \<and> patch u = y \<and> y \<noteq> [] \<and>
          h = ''Issue Resolved'')"
proof -
  let ?rt1 = "poll_callback p (Json d) rt"
  have stored: "view (ui ?rt1) = ''hud''" "patch (ui ?rt1) = x"
    unfolding progress_step [OF assms(2-4)] using assms(1,5) by simp_all
  have failed: "poll_callback q Threw ?rt1 =
      ?rt1\<lparr>ui := (ui ?rt1)\<lparr>status := ''failed'', view := ''result''\<rparr>, pollInterval := None\<rparr>"
    using stored(1) by (simp add: poll_callback_def [of q] on_status_def failure_branch)
  have path: "patch (ui (poll_callback q Threw ?rt1)) = x
    \<and> view (ui (poll_callback q Threw ?rt1)) = ''result''
    \<and> Home (ui (poll_callback q Threw ?rt1)) = Results ''Fix Failed'' None"
    unfolding failed using stored(2) by (simp add: screens)
  have hidden: "view u = ''result'' \<and> status u \<noteq> ''completed'' \<longrightarrow>
      Home u = Results ''Fix Failed'' None"
    by (simp add: screens)
  have shown: "Home u = Results h (Some y) \<longleftrightarrow>
      view u = ''result'' \<and> status u = ''completed'' \<and> patch u = y \<and> y \<noteq> [] \<and>
      h = ''Issue Resolved''"
    by (auto simp: screens)
  from path hidden shown show ?thesis
    by blast
qed

text \<open>Claim C8 on the example run: the patch \<open>partial\<close> is stored, the next request
  fails.\<close>

theorem failed_result_shows_no_patch_witness:
  "view (ui example_active) = ''hud'' \<and> data_patch example_processing = Some ''partial''
   \<and> patch (ui (poll_callback (Poll 0 ''abc123'') Threw
        (poll_callback (Poll 0 ''abc123'') (Json example_processing) example_active))) = ''partial''
   \<and> Home (ui (poll_callback (Poll 0 ''abc123'') Threw
        (poll_callback (Poll 0 ''abc123'') (Json example_processing) example_active))) =
       Results ''Fix Failed'' None
   \<and> view (ui example_partial_then_error) = ''result''
   \<and> status (ui example_partial_then_error) \<noteq> ''completed''
   \<and> patch (ui example_partial_then_error) = ''partial''
   \<and> Home (ui example_partial_then_error) = Results ''Fix Failed'' None"
proof -
  have hyps: "view (ui example_active) = ''hud''"
    "\<not> truthy (data_error example_processing)"
    "data_status example_processing \<noteq> ''completed''"
    "data_status example_processing \<noteq> ''failed''"
    "data_patch example_processing = Some ''partial''" "''partial'' \<noteq> []"
    by (simp_all add: example_active_eq example_processing_def truthy_def)
  from failed_result_shows_no_patch
    [OF hyps, where q = "Poll 0 ''abc123''" and p = "Poll 0 ''abc123''"
       and u = "ui example_partial_then_error"]
  show ?thesis
    using hyps(1,5) by (simp add: example_partial_then_error_eq)
qed

subsection \<open>Defaults of an applied observation\<close>

text \<open>
  Claim C9. For an observation without a truthy \<open>error\<close>, the stored step index is
  \<open>current_step\<close> when that is present and non-zero and 0 otherwise, the stored patch is
  \<open>patch\<close> when that is present and non-empty and the empty string otherwise; a payload
  without \<open>current_step\<close> has the effect of one with \<open>current_step = 0\<close>, and a payload
  without \<open>patch\<close> has the effect of one with an empty \<open>patch\<close>.
\<close>

theorem applied_observation_defaults:
  assumes "\<not> truthy (data_error d)"
  shows "currentStep (ui (poll_callback p (Json d) rt)) =
       (case data_current_step d of None \<Rightarrow> 0 | Some n \<Rightarrow> if n \<noteq> 0 then n else 0)
    \<and> patch (ui (poll_callback p (Json d) rt)) =
       (case data_patch d of None \<Rightarrow> [] | Some x \<Rightarrow> if x \<noteq> [] then x else [])
    \<and> poll_callback p (Json (d\<lparr>data_current_step := None\<rparr>)) rt =
       poll_callback p (Json (d\<lparr>data_current_step := Some 0\<rparr>)) rt
    \<and> poll_callback p (Json (d\<lparr>data_patch := None\<rparr>)) rt =
       poll_callback p (Json (d\<lparr>data_patch := Some []\<rparr>)) rt"
proof -
  have ui_eq: "ui (poll_callback p (Json d) rt) =
      (ui rt)\<lparr>logs := or_array (data_logs d) [],
              currentStep := or_number (data_current_step d) 0,
              status := data_status d, patch := or_string (data_patch d) []\<rparr>"
    using assms
    by (simp add: poll_callback_def on_status_def poll_effect_def clearInterval_def
        setTimeout_def setters Let_def split: option.splits)
  have "currentStep (ui (poll_callback p (Json d) rt)) =
       (case data_current_step d of None \<Rightarrow> 0 | Some n \<Rightarrow> if n \<noteq> 0 then n else 0)"
    unfolding ui_eq by (simp add: or_number_def split: option.splits)
  moreover have "patch (ui (poll_callback p (Json d) rt)) =
       (case data_patch d of None \<Rightarrow> [] | Some x \<Rightarrow> if x \<noteq> [] then x else [])"
    unfolding ui_eq by (simp add: or_string_def split: option.splits)
  moreover have "poll_callback p (Json (d\<lparr>data_current_step := None\<rparr>)) rt =
       poll_callback p (Json (d\<lparr>data_current_step := Some 0\<rparr>)) rt"
    by (simp add: poll_callback_def on_status_def or_number_def)
  moreover have "poll_callback p (Json (d\<lparr>data_patch := None\<rparr>)) rt =
       poll_callback p (Json (d\<lparr>data_patch := Some []\<rparr>)) rt"
    by (simp add: poll_callback_def on_status_def or_string_def)
  ultimately show ?thesis by blast
qed

text \<open>Claim C9 on the example run: a payload without \<open>current_step\<close> stores step 0.\<close>

theorem applied_observation_defaults_witness:
  "\<not> truthy (data_error example_completed)
   \<and> currentStep (ui (poll_callback (Poll 0 ''abc123'') (Json example_completed) example_active)) = 0
   \<and> patch (ui (poll_callback (Poll 0 ''abc123'') (Json example_completed) example_active)) =
       ''--- a/x.py''"
proof -
  have falsy: "\<not> truthy (data_error example_completed)"
    by (simp add: example_completed_def truthy_def)
  from applied_observation_defaults
    [OF falsy, where p = "Poll 0 ''abc123''" and rt = example_active]
  have "currentStep (ui (poll_callback (Poll 0 ''abc123'') (Json example_completed) example_active)) =
       (case data_current_step example_completed of None \<Rightarrow> 0
        | Some n \<Rightarrow> if n \<noteq> 0 then n else 0)"
    and "patch (ui (poll_callback (Poll 0 ''abc123'') (Json example_completed) example_active)) =
       (case data_patch example_completed of None \<Rightarrow> []
        | Some x \<Rightarrow> if x \<noteq> [] then x else [])"
    by blast+
  then show ?thesis
    using falsy by (simp add: example_completed_def)
qed

subsection \<open>Status strings outside the enumeration\<close>




end
